theory Spec2Isabelle
  imports Main "HOL-Library.AList"
begin

section \<open>JavaScript values and call options\<close>

text \<open>
  The client of \<^verbatim>\<open>src/sip-client.js\<close> tests a few JavaScript values for truthiness and
  compares option fields with \<^verbatim>\<open>!== false\<close>. Only the values those tests can tell apart
  are modelled.
\<close>

datatype jsval = Undefined | Null | Bool bool | Num int | Str string

fun truthy :: "jsval \<Rightarrow> bool" where
  "truthy Undefined = False"
| "truthy Null = False"
| "truthy (Bool b) = b"
| "truthy (Num n) = (n \<noteq> 0)"
| "truthy (Str s) = (s \<noteq> [])"

text \<open>The \<^verbatim>\<open>options\<close> argument of \<^verbatim>\<open>makeCall\<close> and \<^verbatim>\<open>answerCall\<close>; a field that is
  absent reads as \<^verbatim>\<open>undefined\<close>.\<close>

record call_options =
  audio :: jsval
  video :: jsval

text \<open>The default parameter \<^verbatim>\<open>options = {}\<close>.\<close>

definition no_options :: call_options where
  "no_options = \<lparr>audio = Undefined, video = Undefined\<rparr>"

text \<open>The video constraint is either the object
  \<^verbatim>\<open>{width: {ideal: 1280}, height: {ideal: 720}, frameRate: {ideal: 30}}\<close> or \<^verbatim>\<open>false\<close>.\<close>

datatype video_constraint = VideoIdeal nat nat nat | VideoOff

record constraints =
  want_audio :: bool
  want_video :: video_constraint

text \<open>The \<^verbatim>\<open>constraints\<close> object built alike in \<^verbatim>\<open>makeCall\<close> and \<^verbatim>\<open>answerCall\<close>.\<close>

definition sdh_constraints :: "call_options \<Rightarrow> constraints" where
  "sdh_constraints options =
     \<lparr>want_audio = (audio options \<noteq> Bool False),
      want_video = (if video options \<noteq> Bool False then VideoIdeal 1280 720 30 else VideoOff)\<rparr>"

section \<open>The objects of the signalling library\<close>

text \<open>
  Sessions are objects of sip.js: an \<^verbatim>\<open>Inviter\<close> (outbound) or an \<^verbatim>\<open>Invitation\<close> (inbound),
  each with a \<^verbatim>\<open>state\<close> that is one of the library's five session states, which the
  client compares by name, and the listeners added to its \<^verbatim>\<open>stateChange\<close> emitter. Each
  listener of the client is a closure over the session identifier it was created with, so
  a listener is recorded as that identifier.
\<close>

datatype SessionState = Initial | Establishing | Established | Terminating | Terminated

datatype session_class = Inviter | Invitation

record session =
  cls :: session_class
  state :: SessionState
  listeners :: "string list"

record user_agent =
  ua_constraints :: constraints
  isRegistered :: bool

text \<open>What the client asks of the library, in the order asked.\<close>

datatype command =
    UA_start | UA_register | UA_unregister | UA_stop
  | Invite nat string constraints
  | Accept nat constraints
  | Cancel nat
  | Reject nat
  | Bye nat

text \<open>What the client emits to its own subscribers.\<close>

datatype event =
    Ev_registered | Ev_unregistered
  | Ev_invite string | Ev_established string | Ev_terminated string

text \<open>
  The JavaScript numbers that \<^verbatim>\<open>parseInt(...) * 1000\<close> can yield: \<^verbatim>\<open>parseInt\<close> gives NaN,
  an infinity or an integer-valued double, and so does its product with 1000 (both zeros
  are \<open>Fin 0\<close>).
\<close>

datatype jsnumber = NaN | PosInfinity | NegInfinity | Fin int

text \<open>
  A pending \<^verbatim>\<open>setTimeout\<close>: the callback's closure (session identifier and session
  object) and, for the call timeout, the delay in milliseconds. The auto-answer delay is
  the constant 1000. The source never calls \<^verbatim>\<open>clearTimeout\<close>, so a timer leaves the
  pending list only by firing.
\<close>

datatype timer = CallTimeout string nat jsnumber | AutoAnswer string nat

datatype error =
    SIP_client_not_connected
  | Invalid_session_or_session_not_found
  | Session_not_found
  | TypeError

section \<open>The client\<close>

text \<open>
  The fields of \<^verbatim>\<open>config\<close> and of \<^verbatim>\<open>process.env\<close> that the modelled methods read. The
  variable \<^verbatim>\<open>CALL_TIMEOUT\<close> enters only through the double
  \<^verbatim>\<open>parseInt(process.env.CALL_TIMEOUT) * 1000\<close>; floating-point multiplication is not
  modelled, so the field \<open>CALL_TIMEOUT_ms\<close> holds that product as the source computes it.
\<close>

record config =
  server :: string
  domain :: "string option"

record process_env =
  AUDIO_ENABLED :: "string option"
  VIDEO_ENABLED :: "string option"
  AUTO_ANSWER :: "string option"
  CALL_TIMEOUT_ms :: jsnumber

text \<open>
  \<open>activeSessions\<close> is the JavaScript \<^verbatim>\<open>Map\<close> from session identifiers to session objects,
  in insertion order; \<open>heap\<close> holds the session objects, a reference being an index, so
  that an object outlives its registry entry as it does in the source. \<open>sent\<close>, \<open>emitted\<close>
  and \<open>timers\<close> record the effects.
\<close>

record client =
  cfg :: config
  env :: process_env
  userAgent :: "user_agent option"
  activeSessions :: "(string \<times> nat) list"
  connected :: bool
  heap :: "session list"
  sent :: "command list"
  emitted :: "event list"
  timers :: "timer list"

definition constructor :: "config \<Rightarrow> process_env \<Rightarrow> client" where
  "constructor config penv =
     \<lparr>cfg = config, env = penv, userAgent = None, activeSessions = [], connected = False,
      heap = [], sent = [], emitted = [], timers = []\<rparr>"

definition deref :: "client \<Rightarrow> nat \<Rightarrow> session option" where
  "deref c r = (if r < length (heap c) then Some (heap c ! r) else None)"

definition send :: "command \<Rightarrow> client \<Rightarrow> client" where
  "send cmd c = c\<lparr>sent := sent c @ [cmd]\<rparr>"

definition emit :: "event \<Rightarrow> client \<Rightarrow> client" where
  "emit ev c = c\<lparr>emitted := emitted c @ [ev]\<rparr>"

text \<open>\<^verbatim>\<open>new Inviter(...)\<close>, and the \<^verbatim>\<open>Invitation\<close> the library creates for an inbound
  INVITE: a new object in state \<open>Initial\<close> with no listener.\<close>

definition alloc :: "session_class \<Rightarrow> client \<Rightarrow> client" where
  "alloc k c = c\<lparr>heap := heap c @ [\<lparr>cls = k, state = Initial, listeners = []\<rparr>]\<rparr>"

definition addListener :: "nat \<Rightarrow> string \<Rightarrow> client \<Rightarrow> client" where
  "addListener r sessionId c =
     (case deref c r of
        None \<Rightarrow> c
      | Some s \<Rightarrow> c\<lparr>heap := (heap c)[r := s\<lparr>listeners := listeners s @ [sessionId]\<rparr>]\<rparr>)"

definition set_session :: "string \<Rightarrow> nat \<Rightarrow> client \<Rightarrow> client" where
  "set_session sessionId r c = c\<lparr>activeSessions := AList.update sessionId r (activeSessions c)\<rparr>"

definition delete_session :: "string \<Rightarrow> client \<Rightarrow> client" where
  "delete_session sessionId c = c\<lparr>activeSessions := AList.delete sessionId (activeSessions c)\<rparr>"

definition get_session :: "client \<Rightarrow> string \<Rightarrow> nat option" where
  "get_session c sessionId = map_of (activeSessions c) sessionId"

definition has_session :: "client \<Rightarrow> string \<Rightarrow> bool" where
  "has_session c sessionId = (get_session c sessionId \<noteq> None)"

text \<open>\<^verbatim>\<open>isConnected\<close>: \<^verbatim>\<open>this.connected && this.userAgent?.isRegistered()\<close>.\<close>

definition isConnected :: "client \<Rightarrow> jsval" where
  "isConnected c =
     (if \<not> connected c then Bool False
      else case userAgent c of None \<Rightarrow> Undefined | Some ua \<Rightarrow> Bool (isRegistered ua))"

text \<open>\<^verbatim>\<open>parseInt(process.env.CALL_TIMEOUT) * 1000 || 30000\<close>: NaN and zero are falsy.\<close>

definition call_timeout :: "client \<Rightarrow> jsnumber" where
  "call_timeout c =
     (case CALL_TIMEOUT_ms (env c) of
        NaN \<Rightarrow> Fin 30000
      | Fin n \<Rightarrow> if n = 0 then Fin 30000 else Fin n
      | PosInfinity \<Rightarrow> PosInfinity
      | NegInfinity \<Rightarrow> NegInfinity)"

definition target_uri :: "client \<Rightarrow> string \<Rightarrow> string" where
  "target_uri c target =
     (if take 4 target = ''sip:'' then target
      else ''sip:'' @ target @ ''@'' @
           (case domain (cfg c) of
              None \<Rightarrow> server (cfg c)
            | Some d \<Rightarrow> if d = [] then server (cfg c) else d))"

text \<open>
  \<^verbatim>\<open>makeCall(target, options)\<close>. The argument \<open>sessionId\<close> is the value that
  \<^verbatim>\<open>generateSessionId()\<close> draws from \<^verbatim>\<open>Math.random()\<close> in this call. The result pairs the
  outcome (the thrown error or the returned identifier) with the client afterwards.
  \<^verbatim>\<open>setupMediaHandlers\<close> only adds listeners to the session's peer connection, which is
  taken to be present, and leaves the modelled state as it is. The library's answer to
  \<^verbatim>\<open>invite()\<close> and to every other command arrives later, as a state change of the session
  or as the failure of the invite.
\<close>

definition makeCall ::
  "client \<Rightarrow> string \<Rightarrow> string \<Rightarrow> call_options \<Rightarrow> (error + string) \<times> client" where
  "makeCall c sessionId target options =
     (if \<not> truthy (isConnected c) then (Inl SIP_client_not_connected, c)
      else case userAgent c of
        None \<Rightarrow> (Inl TypeError, c)
      | Some ua \<Rightarrow>
          let inviter = length (heap c);
              c1 = alloc Inviter c;
              c2 = set_session sessionId inviter c1;
              c3 = addListener inviter sessionId c2;
              c4 = send (Invite inviter (target_uri c target) (sdh_constraints options)) c3;
              c5 = c4\<lparr>timers := timers c4 @ [CallTimeout sessionId inviter (call_timeout c)]\<rparr>
          in (Inr sessionId, c5))"

text \<open>\<^verbatim>\<open>answerCall(sessionId, options)\<close>.\<close>

definition answerCall :: "client \<Rightarrow> string \<Rightarrow> call_options \<Rightarrow> (error + unit) \<times> client" where
  "answerCall c sessionId options =
     (case get_session c sessionId of
        None \<Rightarrow> (Inl Invalid_session_or_session_not_found, c)
      | Some r \<Rightarrow>
          (case deref c r of
             None \<Rightarrow> (Inl Invalid_session_or_session_not_found, c)
           | Some session \<Rightarrow>
               if cls session \<noteq> Invitation then (Inl Invalid_session_or_session_not_found, c)
               else (Inr (), send (Accept r (sdh_constraints options)) c)))"

text \<open>\<^verbatim>\<open>hangupCall(sessionId)\<close>.\<close>

definition hangupCall :: "client \<Rightarrow> string \<Rightarrow> (error + unit) \<times> client" where
  "hangupCall c sessionId =
     (case get_session c sessionId of
        None \<Rightarrow> (Inl Session_not_found, c)
      | Some r \<Rightarrow>
          (case deref c r of
             None \<Rightarrow> (Inl Session_not_found, c)
           | Some session \<Rightarrow>
               (case cls session of
                  Inviter \<Rightarrow>
                    if state session = Initial \<or> state session = Establishing
                    then (Inr (), send (Cancel r) c)
                    else (Inr (), send (Bye r) c)
                | Invitation \<Rightarrow>
                    if state session = Initial
                    then (Inr (), send (Reject r) c)
                    else (Inr (), send (Bye r) c))))"

text \<open>The \<^verbatim>\<open>stateChange\<close> listener that \<^verbatim>\<open>makeCall\<close> and \<^verbatim>\<open>handleIncomingCall\<close> add, as a
  closure over \<open>sessionId\<close>.\<close>

definition listener :: "string \<Rightarrow> SessionState \<Rightarrow> client \<Rightarrow> client" where
  "listener sessionId newState c =
     (case newState of
        Established \<Rightarrow> emit (Ev_established sessionId) c
      | Terminated \<Rightarrow> emit (Ev_terminated sessionId) (delete_session sessionId c)
      | _ \<Rightarrow> c)"

text \<open>The library moves session object \<open>r\<close> to \<open>newState\<close> and runs its listeners.\<close>

definition stateChange :: "client \<Rightarrow> nat \<Rightarrow> SessionState \<Rightarrow> client" where
  "stateChange c r newState =
     (case deref c r of
        None \<Rightarrow> c
      | Some s \<Rightarrow>
          fold (\<lambda>sessionId c'. listener sessionId newState c') (listeners s)
            (c\<lparr>heap := (heap c)[r := s\<lparr>state := newState\<rparr>]\<rparr>))"

text \<open>The \<^verbatim>\<open>catch\<close> handler of \<^verbatim>\<open>inviter.invite()\<close> in \<^verbatim>\<open>makeCall\<close>.\<close>

definition inviteFailed :: "client \<Rightarrow> string \<Rightarrow> client" where
  "inviteFailed c sessionId = delete_session sessionId c"

text \<open>\<^verbatim>\<open>handleIncomingCall(invitation)\<close>, with the identifier drawn in this call.\<close>

definition handleIncomingCall :: "client \<Rightarrow> nat \<Rightarrow> string \<Rightarrow> client" where
  "handleIncomingCall c invitation sessionId =
     (let c1 = set_session sessionId invitation c;
          c2 = addListener invitation sessionId c1;
          c3 = emit (Ev_invite sessionId) c2
      in if AUTO_ANSWER (env c) = Some ''true''
         then c3\<lparr>timers := timers c3 @ [AutoAnswer sessionId invitation]\<rparr>
         else c3)"

text \<open>The delegates of the user agent set up in \<^verbatim>\<open>connect\<close>.\<close>

definition onConnect :: "client \<Rightarrow> client" where
  "onConnect c = c\<lparr>connected := True\<rparr>"

definition onDisconnect :: "client \<Rightarrow> client" where
  "onDisconnect c = emit Ev_unregistered (c\<lparr>connected := False\<rparr>)"

definition onInvite :: "client \<Rightarrow> string \<Rightarrow> client" where
  "onInvite c sessionId = handleIncomingCall (alloc Invitation c) (length (heap c)) sessionId"

text \<open>The two timer callbacks, closures over \<open>sessionId\<close> and the session object.\<close>

definition callTimeoutCallback :: "client \<Rightarrow> string \<Rightarrow> nat \<Rightarrow> (error + unit) \<times> client" where
  "callTimeoutCallback c sessionId inviter =
     (if has_session c sessionId
      then (case deref c inviter of
              None \<Rightarrow> (Inl TypeError, c)
            | Some s \<Rightarrow>
                if state s \<noteq> Established then (Inr (), send (Cancel inviter) c)
                else (Inr (), c))
      else (Inr (), c))"

definition autoAnswerCallback :: "client \<Rightarrow> string \<Rightarrow> nat \<Rightarrow> (error + unit) \<times> client" where
  "autoAnswerCallback c sessionId invitation =
     (case deref c invitation of
        None \<Rightarrow> (Inl TypeError, c)
      | Some s \<Rightarrow>
          if state s = Initial then answerCall c sessionId no_options
          else (Inr (), c))"

text \<open>The \<open>i\<close>-th pending timer fires: it leaves the pending list and its callback runs.\<close>

definition fireTimer :: "client \<Rightarrow> nat \<Rightarrow> (error + unit) \<times> client" where
  "fireTimer c i =
     (if i < length (timers c)
      then let c1 = c\<lparr>timers := take i (timers c) @ drop (Suc i) (timers c)\<rparr>
           in (case timers c ! i of
                 CallTimeout sessionId inviter d \<Rightarrow> callTimeoutCallback c1 sessionId inviter
               | AutoAnswer sessionId invitation \<Rightarrow> autoAnswerCallback c1 sessionId invitation)
      else (Inr (), c))"

text \<open>\<^verbatim>\<open>connect()\<close> builds the user agent from the environment and starts it.\<close>

definition connect :: "client \<Rightarrow> client" where
  "connect c =
     send UA_start
       (c\<lparr>userAgent := Some
            \<lparr>ua_constraints =
               \<lparr>want_audio = (AUDIO_ENABLED (env c) = Some ''true''),
                want_video = (if VIDEO_ENABLED (env c) = Some ''true''
                              then VideoIdeal 1280 720 30 else VideoOff)\<rparr>,
             isRegistered = False\<rparr>\<rparr>)"

text \<open>\<^verbatim>\<open>register()\<close>, with the outcome \<open>ok\<close> of the awaited \<^verbatim>\<open>userAgent.register()\<close>; a null
  user agent raises inside the \<^verbatim>\<open>try\<close> and ends in the \<^verbatim>\<open>catch\<close> branch.\<close>

definition register :: "client \<Rightarrow> bool \<Rightarrow> client" where
  "register c ok =
     (case userAgent c of
        None \<Rightarrow> emit Ev_unregistered c
      | Some ua \<Rightarrow>
          if ok
          then emit Ev_registered
                 (send UA_register (c\<lparr>userAgent := Some (ua\<lparr>isRegistered := True\<rparr>)\<rparr>))
          else emit Ev_unregistered (send UA_register c))"

text \<open>\<^verbatim>\<open>disconnect()\<close>, with the outcome \<open>ok\<close> of the awaited \<^verbatim>\<open>userAgent.unregister()\<close>. The
  loop catches what \<^verbatim>\<open>hangupCall\<close> throws and goes on.\<close>

definition disconnect :: "client \<Rightarrow> bool \<Rightarrow> client" where
  "disconnect c ok =
     (let c1 = fold (\<lambda>(sessionId, session) c'. snd (hangupCall c' sessionId)) (activeSessions c) c;
          c2 = (case userAgent c1 of
                  None \<Rightarrow> c1
                | Some ua \<Rightarrow>
                    if ok
                    then send UA_stop
                           (send UA_unregister (c1\<lparr>userAgent := Some (ua\<lparr>isRegistered := False\<rparr>)\<rparr>))
                    else send UA_unregister c1)
      in c2\<lparr>connected := False\<rparr>)"

text \<open>The states the client can be in: those built from the constructor by its methods,
  the library's callbacks and the timers.\<close>

inductive reachable :: "client \<Rightarrow> bool" where
  r_new: "reachable (constructor config penv)"
| r_connect: "reachable c \<Longrightarrow> reachable (connect c)"
| r_register: "reachable c \<Longrightarrow> reachable (register c ok)"
| r_onConnect: "reachable c \<Longrightarrow> userAgent c \<noteq> None \<Longrightarrow> reachable (onConnect c)"
| r_onDisconnect: "reachable c \<Longrightarrow> userAgent c \<noteq> None \<Longrightarrow> reachable (onDisconnect c)"
| r_onInvite: "reachable c \<Longrightarrow> userAgent c \<noteq> None \<Longrightarrow> reachable (onInvite c sessionId)"
| r_makeCall: "reachable c \<Longrightarrow> reachable (snd (makeCall c sessionId target options))"
| r_answerCall: "reachable c \<Longrightarrow> reachable (snd (answerCall c sessionId options))"
| r_hangupCall: "reachable c \<Longrightarrow> reachable (snd (hangupCall c sessionId))"
| r_stateChange: "reachable c \<Longrightarrow> reachable (stateChange c r newState)"
| r_inviteFailed: "reachable c \<Longrightarrow> reachable (inviteFailed c sessionId)"
| r_fireTimer: "reachable c \<Longrightarrow> reachable (snd (fireTimer c i))"
| r_disconnect: "reachable c \<Longrightarrow> reachable (disconnect c ok)"

section \<open>Example states\<close>

text \<open>Concrete clients, built by the client's own operations: a registered client, one
  with an inbound call ringing, one whose inbound call is being accepted, and one whose
  inbound call is established.\<close>

definition cfg0 :: config where
  "cfg0 = \<lparr>server = ''pbx.local'', domain = None\<rparr>"

definition env0 :: process_env where
  "env0 = \<lparr>AUDIO_ENABLED = Some ''true'', VIDEO_ENABLED = Some ''false'',
            AUTO_ANSWER = Some ''true'', CALL_TIMEOUT_ms = Fin 5000\<rparr>"

definition client_registered :: client where
  "client_registered = onConnect (register (connect (constructor cfg0 env0)) True)"

definition client_ringing :: client where
  "client_ringing = onInvite client_registered ''k3x9q2m1a''"

definition client_accepting :: client where
  "client_accepting = stateChange client_ringing 0 Establishing"

definition client_talking :: client where
  "client_talking = stateChange client_accepting 0 Established"

text \<open>A registered client that has just placed an outbound call.\<close>

definition client_calling :: client where
  "client_calling = snd (makeCall client_registered ''q7w8e9r0t'' ''bob'' no_options)"

section \<open>Basic facts\<close>

lemmas store_defs = deref_def send_def emit_def alloc_def addListener_def set_session_def
  delete_session_def get_session_def has_session_def

lemmas example_defs = cfg0_def env0_def client_registered_def client_ringing_def
  client_accepting_def client_talking_def constructor_def connect_def register_def
  onConnect_def onInvite_def handleIncomingCall_def stateChange_def listener_def

lemma client_registered_eval:
  "client_registered =
     \<lparr>cfg = cfg0, env = env0,
      userAgent = Some \<lparr>ua_constraints = \<lparr>want_audio = True, want_video = VideoOff\<rparr>,
                        isRegistered = True\<rparr>,
      activeSessions = [], connected = True, heap = [],
      sent = [UA_start, UA_register], emitted = [Ev_registered], timers = []\<rparr>"
  by (simp add: example_defs store_defs)

lemma client_ringing_eval:
  "client_ringing =
     \<lparr>cfg = cfg0, env = env0,
      userAgent = Some \<lparr>ua_constraints = \<lparr>want_audio = True, want_video = VideoOff\<rparr>,
                        isRegistered = True\<rparr>,
      activeSessions = [(''k3x9q2m1a'', 0)], connected = True,
      heap = [\<lparr>cls = Invitation, state = Initial, listeners = [''k3x9q2m1a'']\<rparr>],
      sent = [UA_start, UA_register],
      emitted = [Ev_registered, Ev_invite ''k3x9q2m1a''],
      timers = [AutoAnswer ''k3x9q2m1a'' 0]\<rparr>"
  by (simp add: example_defs store_defs)

subsection \<open>Frame lemmas\<close>

lemma listener_frame [simp]:
  "heap (listener sid st c) = heap c"
  "sent (listener sid st c) = sent c"
  "timers (listener sid st c) = timers c"
  "connected (listener sid st c) = connected c"
  "userAgent (listener sid st c) = userAgent c"
  "env (listener sid st c) = env c"
  by (cases st; simp add: listener_def emit_def delete_session_def)+

lemma listener_keys:
  "fst ` set (activeSessions (listener sid st c)) \<subseteq> fst ` set (activeSessions c)"
  using dom_delete_subset [of sid "activeSessions c"]
  by (cases st) (simp_all add: listener_def emit_def delete_session_def)

lemma listener_distinct:
  "distinct (map fst (activeSessions c)) \<Longrightarrow> distinct (map fst (activeSessions (listener sid st c)))"
  by (cases st) (simp_all add: listener_def emit_def delete_session_def distinct_delete)

lemma fold_listener_frame [simp]:
  "heap (fold (\<lambda>sid. listener sid st) ls c) = heap c"
  "sent (fold (\<lambda>sid. listener sid st) ls c) = sent c"
  "timers (fold (\<lambda>sid. listener sid st) ls c) = timers c"
  by (induction ls arbitrary: c; simp)+

lemma fold_listener_keys:
  "fst ` set (activeSessions (fold (\<lambda>sid. listener sid st) ls c)) \<subseteq> fst ` set (activeSessions c)"
proof (induction ls arbitrary: c)
  case Nil
  then show ?case by simp
next
  case (Cons x ls)
  have "fst ` set (activeSessions (fold (\<lambda>sid. listener sid st) ls (listener x st c)))
        \<subseteq> fst ` set (activeSessions (listener x st c))"
    by (rule Cons.IH)
  also have "\<dots> \<subseteq> fst ` set (activeSessions c)"
    by (rule listener_keys)
  finally show ?case by simp
qed

lemma fold_listener_distinct:
  "distinct (map fst (activeSessions c)) \<Longrightarrow>
   distinct (map fst (activeSessions (fold (\<lambda>sid. listener sid st) ls c)))"
  by (induction ls arbitrary: c) (simp_all add: listener_distinct)

lemma listener_terminated_removes:
  "sid \<notin> fst ` set (activeSessions (listener sid Terminated c))"
  using delete_notin_dom [of sid "activeSessions c"]
  by (simp add: listener_def emit_def delete_session_def)

lemma fold_listener_terminated_removes:
  "sid \<in> set ls \<Longrightarrow>
   sid \<notin> fst ` set (activeSessions (fold (\<lambda>x. listener x Terminated) ls c))"
proof (induction ls arbitrary: c)
  case Nil
  then show ?case by simp
next
  case (Cons x ls)
  show ?case
  proof (cases "sid \<in> set ls")
    case True
    then show ?thesis using Cons.IH by simp
  next
    case False
    with Cons.prems have "x = sid" by simp
    then show ?thesis
      using fold_listener_keys [of Terminated ls "listener sid Terminated c"]
        listener_terminated_removes [of sid c]
      by auto
  qed
qed

lemma deref_stateChange:
  "deref c r = Some s \<Longrightarrow> deref (stateChange c r st) r = Some (s\<lparr>state := st\<rparr>)"
  by (simp add: stateChange_def deref_def split: if_splits)

lemma stateChange_terminated_removes:
  "deref c r = Some s \<Longrightarrow> sid \<in> set (listeners s) \<Longrightarrow>
   \<not> has_session (stateChange c r Terminated) sid"
  using fold_listener_terminated_removes [of sid "listeners s"]
  by (simp add: stateChange_def has_session_def get_session_def map_of_eq_None_iff)

lemma hangupCall_frame [simp]:
  "activeSessions (snd (hangupCall c sid)) = activeSessions c"
  "heap (snd (hangupCall c sid)) = heap c"
  "timers (snd (hangupCall c sid)) = timers c"
  "emitted (snd (hangupCall c sid)) = emitted c"
  by (simp_all add: hangupCall_def send_def split: option.splits session_class.splits)

lemma answerCall_frame [simp]:
  "activeSessions (snd (answerCall c sid opts)) = activeSessions c"
  "heap (snd (answerCall c sid opts)) = heap c"
  "timers (snd (answerCall c sid opts)) = timers c"
  "emitted (snd (answerCall c sid opts)) = emitted c"
  by (simp_all add: answerCall_def send_def split: option.splits)

lemma update_fresh_key:
  "k \<notin> fst ` set al \<Longrightarrow> AList.update k v al = al @ [(k, v)]"
  by (induction al) auto

lemma truthy_isConnected:
  "truthy (isConnected c) \<longleftrightarrow> connected c \<and> (\<exists>ua. userAgent c = Some ua \<and> isRegistered ua)"
  by (simp add: isConnected_def split: option.splits)

lemma makeCall_connected:
  assumes "truthy (isConnected c)"
  shows "makeCall c sessionId target options =
      (Inr sessionId,
       c\<lparr>activeSessions := AList.update sessionId (length (heap c)) (activeSessions c),
          heap := heap c @ [\<lparr>cls = Inviter, state = Initial, listeners = [sessionId]\<rparr>],
          sent := sent c @ [Invite (length (heap c)) (target_uri c target) (sdh_constraints options)],
          timers := timers c @ [CallTimeout sessionId (length (heap c)) (call_timeout c)]\<rparr>)"
proof -
  from assms obtain ua where "userAgent c = Some ua"
    by (auto simp: truthy_isConnected)
  with assms show ?thesis
    by (simp add: makeCall_def Let_def store_defs)
qed

lemma client_calling_eval:
  "client_calling = client_registered
     \<lparr>activeSessions := [(''q7w8e9r0t'', 0)],
      heap := [\<lparr>cls = Inviter, state = Initial, listeners = [''q7w8e9r0t'']\<rparr>],
      sent := [UA_start, UA_register,
               Invite 0 ''sip:bob@pbx.local''
                 \<lparr>want_audio = True, want_video = VideoIdeal 1280 720 30\<rparr>],
      timers := [CallTimeout ''q7w8e9r0t'' 0 (Fin 5000)]\<rparr>"
proof -
  have t: "truthy (isConnected client_registered)"
    by (simp add: client_registered_eval isConnected_def)
  show ?thesis
    unfolding client_calling_def makeCall_connected [OF t]
    by (simp add: client_registered_eval target_uri_def call_timeout_def sdh_constraints_def
        no_options_def cfg0_def env0_def)
qed

section \<open>Unknown identifiers\<close>

text \<open>
  Claim C7. For an identifier that is not in the session registry, \<^verbatim>\<open>hangupCall\<close> fails with
  the error "Session not found" and leaves the client, the registry included, as it was.
  This covers an identifier that was never registered and one whose session has reached
  \<open>Terminated\<close>: the session's listener removed it from the registry.
\<close>

theorem hangupCall_unknown_session:
  "(sessionId \<notin> fst ` set (activeSessions c) \<longrightarrow>
      hangupCall c sessionId = (Inl Session_not_found, c))
   \<and> (deref c r = Some s \<and> sessionId \<in> set (listeners s) \<longrightarrow>
      hangupCall (stateChange c r Terminated) sessionId
        = (Inl Session_not_found, stateChange c r Terminated))"
proof (intro conjI impI)
  assume "sessionId \<notin> fst ` set (activeSessions c)"
  then have "get_session c sessionId = None"
    by (simp add: get_session_def map_of_eq_None_iff)
  then show "hangupCall c sessionId = (Inl Session_not_found, c)"
    by (simp add: hangupCall_def)
next
  assume "deref c r = Some s \<and> sessionId \<in> set (listeners s)"
  then have "\<not> has_session (stateChange c r Terminated) sessionId"
    using stateChange_terminated_removes by blast
  then show "hangupCall (stateChange c r Terminated) sessionId
        = (Inl Session_not_found, stateChange c r Terminated)"
    by (simp add: hangupCall_def has_session_def)
qed

theorem hangupCall_unknown_session_witness:
  "''zzzzzzzzz'' \<notin> fst ` set (activeSessions client_ringing)
   \<and> hangupCall client_ringing ''zzzzzzzzz'' = (Inl Session_not_found, client_ringing)
   \<and> deref client_ringing 0
       = Some \<lparr>cls = Invitation, state = Initial, listeners = [''k3x9q2m1a'']\<rparr>
   \<and> ''k3x9q2m1a'' \<in> set [''k3x9q2m1a'']
   \<and> hangupCall (stateChange client_ringing 0 Terminated) ''k3x9q2m1a''
       = (Inl Session_not_found, stateChange client_ringing 0 Terminated)"
proof -
  have h: "''zzzzzzzzz'' \<notin> fst ` set (activeSessions client_ringing)"
    by (simp add: client_ringing_eval)
  have d: "deref client_ringing 0
       = Some \<lparr>cls = Invitation, state = Initial, listeners = [''k3x9q2m1a'']\<rparr>"
    by (simp add: client_ringing_eval deref_def)
  show ?thesis
    using h d
      hangupCall_unknown_session [of "''zzzzzzzzz''" client_ringing 0
        "\<lparr>cls = Invitation, state = Initial, listeners = [''k3x9q2m1a'']\<rparr>"]
      hangupCall_unknown_session [of "''k3x9q2m1a''" client_ringing 0
        "\<lparr>cls = Invitation, state = Initial, listeners = [''k3x9q2m1a'']\<rparr>"]
    by simp
qed

section \<open>The connectivity guard of makeCall\<close>

text \<open>
  Claim C10. A newly constructed client has no user agent and \<^verbatim>\<open>isConnected()\<close> is
  \<^verbatim>\<open>false\<close> for it; the same holds whenever the \<open>connected\<close> flag is clear, as it is
  after \<^verbatim>\<open>onDisconnect\<close> and after \<^verbatim>\<open>disconnect()\<close>. In such a state \<^verbatim>\<open>makeCall\<close> throws
  "SIP client not connected" on its first statement, never reaches the user agent, and
  leaves the client, the registry included, as it was.
\<close>

theorem makeCall_refused_when_not_connected:
  "isConnected (constructor config penv) = Bool False
   \<and> makeCall (constructor config penv) sessionId target options
       = (Inl SIP_client_not_connected, constructor config penv)
   \<and> \<not> connected (onDisconnect c0) \<and> \<not> connected (disconnect c0 ok)
   \<and> (\<not> connected c \<longrightarrow>
        isConnected c = Bool False
        \<and> makeCall c sessionId target options = (Inl SIP_client_not_connected, c))"
  by (simp add: isConnected_def makeCall_def constructor_def onDisconnect_def emit_def
      disconnect_def Let_def)

theorem makeCall_refused_when_not_connected_witness:
  "\<not> connected (onDisconnect client_ringing)
   \<and> isConnected (onDisconnect client_ringing) = Bool False
   \<and> makeCall (onDisconnect client_ringing) ''q7w8e9r0t'' ''bob'' no_options
       = (Inl SIP_client_not_connected, onDisconnect client_ringing)
   \<and> activeSessions (onDisconnect client_ringing) = [(''k3x9q2m1a'', 0)]"
proof -
  have h: "\<not> connected (onDisconnect client_ringing)"
    by (simp add: onDisconnect_def emit_def)
  have a: "activeSessions (onDisconnect client_ringing) = [(''k3x9q2m1a'', 0)]"
    by (simp add: onDisconnect_def emit_def client_ringing_eval)
  show ?thesis
    using h a makeCall_refused_when_not_connected
      [of cfg0 env0 "''q7w8e9r0t''" "''bob''" no_options client_ringing True
          "onDisconnect client_ringing"]
    by blast
qed

text \<open>
  Claim C8, as stated, fails in its last part: the identifier that \<^verbatim>\<open>makeCall\<close> returns
  need not be fresh. When the draw equals the identifier of the ringing inbound session
  of \<open>client_ringing\<close>, \<^verbatim>\<open>makeCall\<close> returns that identifier; the registry keeps its one
  entry, which now leads to the new outbound session instead of the inbound one.
\<close>

theorem makeCall_returns_registered_id_counterexample:
  "''k3x9q2m1a'' \<in> fst ` set (activeSessions client_ringing)
   \<and> get_session client_ringing ''k3x9q2m1a'' = Some 0
   \<and> fst (makeCall client_ringing ''k3x9q2m1a'' ''alice'' no_options) = Inr ''k3x9q2m1a''
   \<and> length (activeSessions (snd (makeCall client_ringing ''k3x9q2m1a'' ''alice'' no_options)))
       = length (activeSessions client_ringing)
   \<and> get_session (snd (makeCall client_ringing ''k3x9q2m1a'' ''alice'' no_options)) ''k3x9q2m1a''
       = Some 1"
proof -
  have t: "truthy (isConnected client_ringing)"
    by (simp add: client_ringing_eval isConnected_def)
  show ?thesis
    unfolding makeCall_connected [OF t]
    by (simp add: client_ringing_eval get_session_def)
qed

text \<open>
  Claim C8, amended. \<^verbatim>\<open>makeCall\<close> fails with "SIP client not connected" exactly when
  \<^verbatim>\<open>isConnected()\<close> is falsy, that is unless the transport is connected and the user agent
  is registered, and then it leaves the client as it was. Otherwise it returns the
  identifier generated in the call, and the registry maps that identifier to a newly
  created outbound session in state \<open>Initial\<close>. The identifier is not compared with the
  registry: if it is not registered yet, the registry grows by exactly this entry; if it
  is, the registry keeps its identifiers and the entry is replaced.
\<close>

theorem makeCall_not_registered:
  "(truthy (isConnected c) \<longleftrightarrow> connected c \<and> (\<exists>ua. userAgent c = Some ua \<and> isRegistered ua))
   \<and> (\<not> truthy (isConnected c) \<longrightarrow>
        makeCall c sessionId target options = (Inl SIP_client_not_connected, c))
   \<and> (truthy (isConnected c) \<longrightarrow>
        fst (makeCall c sessionId target options) = Inr sessionId
        \<and> get_session (snd (makeCall c sessionId target options)) sessionId
            = Some (length (heap c))
        \<and> deref c (length (heap c)) = None
        \<and> deref (snd (makeCall c sessionId target options)) (length (heap c))
            = Some \<lparr>cls = Inviter, state = Initial, listeners = [sessionId]\<rparr>
        \<and> length (heap (snd (makeCall c sessionId target options))) = Suc (length (heap c))
        \<and> (sessionId \<notin> fst ` set (activeSessions c) \<longrightarrow>
             activeSessions (snd (makeCall c sessionId target options))
               = activeSessions c @ [(sessionId, length (heap c))])
        \<and> (sessionId \<in> fst ` set (activeSessions c) \<longrightarrow>
             map fst (activeSessions (snd (makeCall c sessionId target options)))
               = map fst (activeSessions c)))"
proof (intro conjI impI)
  show "truthy (isConnected c) \<longleftrightarrow> connected c \<and> (\<exists>ua. userAgent c = Some ua \<and> isRegistered ua)"
    by (rule truthy_isConnected)
next
  assume "\<not> truthy (isConnected c)"
  then show "makeCall c sessionId target options = (Inl SIP_client_not_connected, c)"
    by (simp add: makeCall_def)
next
  assume t: "truthy (isConnected c)"
  note m = makeCall_connected [OF t, of sessionId target options]
  show "fst (makeCall c sessionId target options) = Inr sessionId"
    by (simp add: m)
  show "get_session (snd (makeCall c sessionId target options)) sessionId = Some (length (heap c))"
    by (simp add: m get_session_def update_conv')
  show "deref c (length (heap c)) = None"
    by (simp add: deref_def)
  show "deref (snd (makeCall c sessionId target options)) (length (heap c))
            = Some \<lparr>cls = Inviter, state = Initial, listeners = [sessionId]\<rparr>"
    by (simp add: m deref_def)
  show "length (heap (snd (makeCall c sessionId target options))) = Suc (length (heap c))"
    by (simp add: m)
  show "activeSessions (snd (makeCall c sessionId target options))
               = activeSessions c @ [(sessionId, length (heap c))]"
    if "sessionId \<notin> fst ` set (activeSessions c)"
    using that by (simp add: m update_fresh_key)
  show "map fst (activeSessions (snd (makeCall c sessionId target options)))
               = map fst (activeSessions c)"
    if "sessionId \<in> fst ` set (activeSessions c)"
    using that by (simp add: m update_keys)
qed

theorem makeCall_not_registered_witness:
  "truthy (isConnected client_registered)
   \<and> ''q7w8e9r0t'' \<notin> fst ` set (activeSessions client_registered)
   \<and> fst (makeCall client_registered ''q7w8e9r0t'' ''bob'' no_options) = Inr ''q7w8e9r0t''
   \<and> get_session (snd (makeCall client_registered ''q7w8e9r0t'' ''bob'' no_options)) ''q7w8e9r0t''
       = Some 0
   \<and> activeSessions (snd (makeCall client_registered ''q7w8e9r0t'' ''bob'' no_options))
       = [(''q7w8e9r0t'', 0)]
   \<and> truthy (isConnected client_ringing)
   \<and> ''k3x9q2m1a'' \<in> fst ` set (activeSessions client_ringing)
   \<and> map fst (activeSessions (snd (makeCall client_ringing ''k3x9q2m1a'' ''bob'' no_options)))
       = [''k3x9q2m1a'']
   \<and> \<not> truthy (isConnected (constructor cfg0 env0))
   \<and> makeCall (constructor cfg0 env0) ''q7w8e9r0t'' ''bob'' no_options
       = (Inl SIP_client_not_connected, constructor cfg0 env0)"
proof -
  have t: "truthy (isConnected client_registered)"
    by (simp add: client_registered_eval isConnected_def)
  have h: "length (heap client_registered) = 0" "activeSessions client_registered = []"
    by (simp_all add: client_registered_eval)
  have k: "''q7w8e9r0t'' \<notin> fst ` set (activeSessions client_registered)"
    by (simp add: client_registered_eval)
  have t': "truthy (isConnected client_ringing)"
    by (simp add: client_ringing_eval isConnected_def)
  have k': "''k3x9q2m1a'' \<in> fst ` set (activeSessions client_ringing)"
    by (simp add: client_ringing_eval)
  have a': "map fst (activeSessions client_ringing) = [''k3x9q2m1a'']"
    by (simp add: client_ringing_eval)
  have f: "\<not> truthy (isConnected (constructor cfg0 env0))"
    by (simp add: constructor_def isConnected_def)
  have r: "map fst (activeSessions (snd (makeCall client_ringing ''k3x9q2m1a'' ''bob'' no_options)))
       = [''k3x9q2m1a'']"
    using t' k' a'
      makeCall_not_registered [of client_ringing "''k3x9q2m1a''" "''bob''" no_options]
    by simp
  show ?thesis
    using t h k t' k' f r
      makeCall_not_registered [of client_registered "''q7w8e9r0t''" "''bob''" no_options]
      makeCall_not_registered [of "constructor cfg0 env0" "''q7w8e9r0t''" "''bob''" no_options]
    by simp
qed

section \<open>Default media options\<close>

text \<open>
  Claim C9. With the options omitted, as in the auto-answer callback, \<^verbatim>\<open>answerCall\<close>
  accepts with audio requested and with the video constraint object, whatever
  \<^verbatim>\<open>AUDIO_ENABLED\<close> and \<^verbatim>\<open>VIDEO_ENABLED\<close> hold in the process environment.
\<close>

theorem answerCall_default_options:
  "sdh_constraints no_options = \<lparr>want_audio = True, want_video = VideoIdeal 1280 720 30\<rparr>
   \<and> (get_session c sessionId = Some r \<and> deref c r = Some s \<and> cls s = Invitation \<longrightarrow>
        answerCall (c\<lparr>env := penv\<rparr>) sessionId no_options
          = (Inr (), send (Accept r \<lparr>want_audio = True, want_video = VideoIdeal 1280 720 30\<rparr>)
                       (c\<lparr>env := penv\<rparr>))
        \<and> (state s = Initial \<longrightarrow>
             autoAnswerCallback (c\<lparr>env := penv\<rparr>) sessionId r
               = (Inr (), send (Accept r \<lparr>want_audio = True, want_video = VideoIdeal 1280 720 30\<rparr>)
                            (c\<lparr>env := penv\<rparr>))))"
  by (simp add: sdh_constraints_def no_options_def answerCall_def autoAnswerCallback_def
      get_session_def deref_def)

theorem answerCall_default_options_witness:
  "get_session client_ringing ''k3x9q2m1a'' = Some 0
   \<and> deref client_ringing 0 = Some \<lparr>cls = Invitation, state = Initial, listeners = [''k3x9q2m1a'']\<rparr>
   \<and> autoAnswerCallback
        (client_ringing\<lparr>env := env0\<lparr>AUDIO_ENABLED := Some ''false'', VIDEO_ENABLED := None\<rparr>\<rparr>)
        ''k3x9q2m1a'' 0
       = (Inr (), send (Accept 0 \<lparr>want_audio = True, want_video = VideoIdeal 1280 720 30\<rparr>)
           (client_ringing\<lparr>env := env0\<lparr>AUDIO_ENABLED := Some ''false'', VIDEO_ENABLED := None\<rparr>\<rparr>))"
proof -
  have g: "get_session client_ringing ''k3x9q2m1a'' = Some 0"
    by (simp add: client_ringing_eval get_session_def)
  have d: "deref client_ringing 0 =
      Some \<lparr>cls = Invitation, state = Initial, listeners = [''k3x9q2m1a'']\<rparr>"
    by (simp add: client_ringing_eval deref_def)
  show ?thesis
    using g d
      answerCall_default_options [of client_ringing "''k3x9q2m1a''" 0
        "\<lparr>cls = Invitation, state = Initial, listeners = [''k3x9q2m1a'']\<rparr>"
        "env0\<lparr>AUDIO_ENABLED := Some ''false'', VIDEO_ENABLED := None\<rparr>"]
    by simp
qed

section \<open>Answering\<close>

lemma client_accepting_eval:
  "client_accepting = client_ringing
     \<lparr>heap := [\<lparr>cls = Invitation, state = Establishing, listeners = [''k3x9q2m1a'']\<rparr>]\<rparr>"
  by (simp add: client_accepting_def client_ringing_eval stateChange_def deref_def listener_def)

lemma client_talking_eval:
  "client_talking = client_ringing
     \<lparr>heap := [\<lparr>cls = Invitation, state = Established, listeners = [''k3x9q2m1a'']\<rparr>],
      emitted := [Ev_registered, Ev_invite ''k3x9q2m1a'', Ev_established ''k3x9q2m1a'']\<rparr>"
  by (simp add: client_talking_def client_accepting_eval client_ringing_eval stateChange_def
      deref_def listener_def emit_def)

text \<open>
  Claim C1, as stated, fails: \<^verbatim>\<open>answerCall\<close> does not look at the session's state. For the
  inbound session of \<open>client_talking\<close>, which is \<open>Established\<close>, it returns normally and
  issues an accept; and after accepting the ringing session of \<open>client_ringing\<close> the
  auto-answer timer is still pending.
\<close>

theorem answerCall_established_counterexample:
  "deref client_talking 0
     = Some \<lparr>cls = Invitation, state = Established, listeners = [''k3x9q2m1a'']\<rparr>
   \<and> answerCall client_talking ''k3x9q2m1a'' no_options
     = (Inr (), send (Accept 0 (sdh_constraints no_options)) client_talking)
   \<and> timers (snd (answerCall client_ringing ''k3x9q2m1a'' no_options))
     = [AutoAnswer ''k3x9q2m1a'' 0]"
  by (simp add: client_talking_eval client_ringing_eval answerCall_def get_session_def
      deref_def send_def)

text \<open>
  Claim C1, amended. \<^verbatim>\<open>answerCall\<close> issues an accept exactly when the identifier is
  registered to an inbound session (an \<^verbatim>\<open>Invitation\<close>), whatever the state of that session;
  in every other case it fails with the one error "Invalid session or session not found"
  and leaves the client as it was. It leaves the pending timers as they are.
\<close>

theorem answerCall_accepts_inbound:
  "(fst (answerCall c sessionId options) = Inr () \<longleftrightarrow>
      (\<exists>r s. get_session c sessionId = Some r \<and> deref c r = Some s \<and> cls s = Invitation))
   \<and> (get_session c sessionId = Some r \<and> deref c r = Some s \<and> cls s = Invitation \<longrightarrow>
        answerCall c sessionId options
          = (Inr (), send (Accept r (sdh_constraints options)) c))
   \<and> (fst (answerCall c sessionId options) \<noteq> Inr () \<longrightarrow>
        answerCall c sessionId options = (Inl Invalid_session_or_session_not_found, c))
   \<and> timers (snd (answerCall c sessionId options)) = timers c"
  by (auto simp add: answerCall_def send_def split: option.splits)

theorem answerCall_accepts_inbound_witness:
  "get_session client_talking ''k3x9q2m1a'' = Some 0
   \<and> deref client_talking 0
       = Some \<lparr>cls = Invitation, state = Established, listeners = [''k3x9q2m1a'']\<rparr>
   \<and> answerCall client_talking ''k3x9q2m1a'' \<lparr>audio = Bool True, video = Bool False\<rparr>
       = (Inr (), send (Accept 0 \<lparr>want_audio = True, want_video = VideoOff\<rparr>) client_talking)
   \<and> fst (answerCall client_registered ''k3x9q2m1a'' no_options) \<noteq> Inr ()
   \<and> answerCall client_registered ''k3x9q2m1a'' no_options
       = (Inl Invalid_session_or_session_not_found, client_registered)"
proof -
  have g: "get_session client_talking ''k3x9q2m1a'' = Some 0"
    by (simp add: client_talking_eval client_ringing_eval get_session_def)
  have d: "deref client_talking 0
       = Some \<lparr>cls = Invitation, state = Established, listeners = [''k3x9q2m1a'']\<rparr>"
    by (simp add: client_talking_eval client_ringing_eval deref_def)
  have n: "get_session client_registered ''k3x9q2m1a'' = None"
    by (simp add: client_registered_eval get_session_def)
  have a: "answerCall client_talking ''k3x9q2m1a'' \<lparr>audio = Bool True, video = Bool False\<rparr>
       = (Inr (), send (Accept 0 \<lparr>want_audio = True, want_video = VideoOff\<rparr>) client_talking)"
    using g d answerCall_accepts_inbound [of client_talking "''k3x9q2m1a''"
        "\<lparr>audio = Bool True, video = Bool False\<rparr>" 0
        "\<lparr>cls = Invitation, state = Established, listeners = [''k3x9q2m1a'']\<rparr>"]
    by (simp add: sdh_constraints_def)
  have f: "fst (answerCall client_registered ''k3x9q2m1a'' no_options) \<noteq> Inr ()"
    using n answerCall_accepts_inbound [of client_registered "''k3x9q2m1a''" no_options]
    by simp
  have b: "answerCall client_registered ''k3x9q2m1a'' no_options
       = (Inl Invalid_session_or_session_not_found, client_registered)"
    using f answerCall_accepts_inbound [of client_registered "''k3x9q2m1a''" no_options]
    by blast
  show ?thesis using g d a f b by blast
qed

section \<open>Transport disconnect\<close>

lemma fold_hangupCall_frame [simp]:
  "activeSessions (fold (\<lambda>(sessionId, session) c'. snd (hangupCall c' sessionId)) xs c)
     = activeSessions c"
  "heap (fold (\<lambda>(sessionId, session) c'. snd (hangupCall c' sessionId)) xs c) = heap c"
  "emitted (fold (\<lambda>(sessionId, session) c'. snd (hangupCall c' sessionId)) xs c) = emitted c"
  "timers (fold (\<lambda>(sessionId, session) c'. snd (hangupCall c' sessionId)) xs c) = timers c"
  by (induction xs arbitrary: c; simp add: case_prod_beta)+

lemma disconnect_frame [simp]:
  "activeSessions (disconnect c ok) = activeSessions c"
  "heap (disconnect c ok) = heap c"
  "emitted (disconnect c ok) = emitted c"
  "timers (disconnect c ok) = timers c"
  by (simp_all add: disconnect_def Let_def send_def split: option.splits)



section \<open>Hanging up\<close>

lemma hangupCall_dispatch:
  assumes "get_session c sessionId = Some r" and "deref c r = Some s"
  shows "hangupCall c sessionId =
     (Inr (), send (if cls s = Inviter \<and> (state s = Initial \<or> state s = Establishing) then Cancel r
                    else if cls s = Invitation \<and> state s = Initial then Reject r
                    else Bye r) c)"
  using assms by (cases "cls s") (simp_all add: hangupCall_def)

text \<open>
  Claim C3. An inbound session that is being accepted (state \<open>Establishing\<close>) has never
  been established, yet \<^verbatim>\<open>hangupCall\<close> sends it \<^verbatim>\<open>bye\<close>: the \<^verbatim>\<open>Invitation\<close> branch tests
  for \<open>Initial\<close> only, where the \<^verbatim>\<open>Inviter\<close> branch tests for \<open>Initial\<close> and
  \<open>Establishing\<close>. The same holds for an outbound session that was cancelled before it
  was established and is \<open>Terminating\<close>.
\<close>

theorem hangupCall_inbound_establishing_bye:
  "deref client_accepting 0
     = Some \<lparr>cls = Invitation, state = Establishing, listeners = [''k3x9q2m1a'']\<rparr>
   \<and> hangupCall client_accepting ''k3x9q2m1a'' = (Inr (), send (Bye 0) client_accepting)
   \<and> deref (stateChange client_calling 0 Terminating) 0
     = Some \<lparr>cls = Inviter, state = Terminating, listeners = [''q7w8e9r0t'']\<rparr>
   \<and> hangupCall (stateChange client_calling 0 Terminating) ''q7w8e9r0t''
     = (Inr (), send (Bye 0) (stateChange client_calling 0 Terminating))"
proof -
  have a: "deref client_accepting 0
     = Some \<lparr>cls = Invitation, state = Establishing, listeners = [''k3x9q2m1a'']\<rparr>"
    by (simp add: client_accepting_eval client_ringing_eval deref_def)
  have g: "get_session client_accepting ''k3x9q2m1a'' = Some 0"
    by (simp add: client_accepting_eval client_ringing_eval get_session_def)
  have d: "deref client_calling 0
     = Some \<lparr>cls = Inviter, state = Initial, listeners = [''q7w8e9r0t'']\<rparr>"
    by (simp add: client_calling_eval deref_def)
  have t: "deref (stateChange client_calling 0 Terminating) 0
     = Some \<lparr>cls = Inviter, state = Terminating, listeners = [''q7w8e9r0t'']\<rparr>"
    using deref_stateChange [OF d, of Terminating] by simp
  have h: "get_session (stateChange client_calling 0 Terminating) ''q7w8e9r0t'' = Some 0"
    by (simp add: stateChange_def deref_def listener_def get_session_def client_calling_eval)
  show ?thesis
    using a t hangupCall_dispatch [OF g a] hangupCall_dispatch [OF h t] by simp
qed

section \<open>The outbound call timeout\<close>

lemma stateChange_frame [simp]:
  "heap (stateChange c r st) = (case deref c r of None \<Rightarrow> heap c
      | Some s \<Rightarrow> (heap c)[r := s\<lparr>state := st\<rparr>])"
  "sent (stateChange c r st) = sent c"
  "timers (stateChange c r st) = timers c"
  by (simp_all add: stateChange_def split: option.splits)

lemma callTimeoutCallback_noop:
  "\<not> has_session c sessionId \<or> (\<exists>s. deref c r = Some s \<and> state s = Established) \<Longrightarrow>
   callTimeoutCallback c sessionId r = (Inr (), c)"
  by (auto simp add: callTimeoutCallback_def)

lemma callTimeoutCallback_acts:
  "snd (callTimeoutCallback c sessionId r) \<noteq> c \<Longrightarrow>
   has_session c sessionId \<and> (\<exists>s. deref c r = Some s \<and> state s \<noteq> Established)
   \<and> callTimeoutCallback c sessionId r = (Inr (), send (Cancel r) c)"
  by (auto simp add: callTimeoutCallback_def split: if_splits option.splits)

lemma callTimeoutCallback_cancels:
  "has_session c sessionId \<Longrightarrow> deref c r = Some s \<Longrightarrow> state s \<noteq> Established \<Longrightarrow>
   callTimeoutCallback c sessionId r = (Inr (), send (Cancel r) c)"
  by (simp add: callTimeoutCallback_def)

lemma client_calling_hungup_eval:
  "snd (hangupCall client_calling ''q7w8e9r0t'') = send (Cancel 0) client_calling"
  by (simp add: client_calling_eval hangupCall_def get_session_def deref_def)

text \<open>
  Claim C4, as stated, fails. No deadline is ever disarmed, and the callback's test is
  on the identifier and on \<open>Established\<close> only. After \<^verbatim>\<open>hangupCall\<close> has cancelled the
  outbound session of \<open>client_calling\<close>, the identifier stays registered until the library
  reports \<open>Terminated\<close>, and the timer cancels the session a second time, also when the
  library has reported \<open>Terminating\<close> in between. And after the session was terminated and
  removed, an inbound call that draws the same identifier makes the timer cancel the
  terminated session.
\<close>

theorem call_timeout_double_cancel_counterexample:
  "sent (snd (hangupCall client_calling ''q7w8e9r0t'')) = sent client_calling @ [Cancel 0]
   \<and> sent (snd (fireTimer (snd (hangupCall client_calling ''q7w8e9r0t'')) 0))
       = sent client_calling @ [Cancel 0, Cancel 0]
   \<and> sent (snd (fireTimer
         (stateChange (snd (hangupCall client_calling ''q7w8e9r0t'')) 0 Terminating) 0))
       = sent client_calling @ [Cancel 0, Cancel 0]
   \<and> \<not> has_session (stateChange client_calling 0 Terminated) ''q7w8e9r0t''
   \<and> sent (snd (fireTimer (onInvite (stateChange client_calling 0 Terminated) ''q7w8e9r0t'') 0))
       = sent client_calling @ [Cancel 0]"
proof -
  have a: "sent (snd (hangupCall client_calling ''q7w8e9r0t'')) = sent client_calling @ [Cancel 0]"
    unfolding client_calling_hungup_eval by (simp add: send_def)
  have b: "sent (snd (fireTimer (snd (hangupCall client_calling ''q7w8e9r0t'')) 0))
       = sent client_calling @ [Cancel 0, Cancel 0]"
    unfolding client_calling_hungup_eval
    by (simp add: client_calling_eval fireTimer_def callTimeoutCallback_def has_session_def
        get_session_def deref_def send_def)
  have c: "sent (snd (fireTimer
         (stateChange (snd (hangupCall client_calling ''q7w8e9r0t'')) 0 Terminating) 0))
       = sent client_calling @ [Cancel 0, Cancel 0]"
    unfolding client_calling_hungup_eval
    by (simp add: client_calling_eval fireTimer_def stateChange_def listener_def
        callTimeoutCallback_def has_session_def get_session_def deref_def send_def)
  have d: "\<not> has_session (stateChange client_calling 0 Terminated) ''q7w8e9r0t''"
    by (simp add: client_calling_eval stateChange_def listener_def has_session_def
        get_session_def deref_def emit_def delete_session_def)
  have e: "sent (snd (fireTimer (onInvite (stateChange client_calling 0 Terminated) ''q7w8e9r0t'') 0))
       = sent client_calling @ [Cancel 0]"
    by (simp add: client_calling_eval client_registered_eval env0_def fireTimer_def
        stateChange_def listener_def onInvite_def handleIncomingCall_def Let_def
        callTimeoutCallback_def store_defs)
  show ?thesis using a b c d e by simp
qed

text \<open>
  Claim C4, amended. \<^verbatim>\<open>makeCall\<close> arms the call timeout for the new session, and
  nothing disarms it: answering, hanging up, a state change, a failed invite and a
  disconnect leave the pending timers as they are. When the timer fires, the callback does nothing if at
  that moment the session's identifier is not in the registry or the session is
  \<open>Established\<close>. It cancels only when the identifier is in the registry and the session is
  not \<open>Established\<close>, and then issues exactly one cancel; a session whose identifier is
  registered and which is still \<open>Initial\<close> or \<open>Establishing\<close> is cancelled.
\<close>

theorem call_timeout_guard:
  "(truthy (isConnected c) \<longrightarrow>
      timers (snd (makeCall c sessionId target options))
        = timers c @ [CallTimeout sessionId (length (heap c)) (call_timeout c)])
   \<and> timers (snd (hangupCall c sessionId)) = timers c
   \<and> timers (stateChange c r st) = timers c
   \<and> timers (inviteFailed c sessionId) = timers c
   \<and> (\<not> has_session c sessionId \<or> (\<exists>s. deref c r = Some s \<and> state s = Established) \<longrightarrow>
        callTimeoutCallback c sessionId r = (Inr (), c))
   \<and> (has_session c sessionId \<and> deref c r = Some s'
        \<and> (state s' = Initial \<or> state s' = Establishing) \<longrightarrow>
        callTimeoutCallback c sessionId r = (Inr (), send (Cancel r) c))
   \<and> (snd (callTimeoutCallback c sessionId r) \<noteq> c \<longrightarrow>
        has_session c sessionId \<and> (\<exists>s. deref c r = Some s \<and> state s \<noteq> Established)
        \<and> callTimeoutCallback c sessionId r = (Inr (), send (Cancel r) c))
   \<and> (i < length (timers c) \<and> timers c ! i = CallTimeout sessionId r d \<longrightarrow>
        fireTimer c i
          = callTimeoutCallback (c\<lparr>timers := take i (timers c) @ drop (Suc i) (timers c)\<rparr>)
              sessionId r)
   \<and> timers (snd (answerCall c sessionId options)) = timers c
   \<and> timers (onDisconnect c) = timers c
   \<and> timers (disconnect c ok) = timers c"
proof (intro conjI impI)
  assume "truthy (isConnected c)"
  then show "timers (snd (makeCall c sessionId target options))
        = timers c @ [CallTimeout sessionId (length (heap c)) (call_timeout c)]"
    by (simp add: makeCall_connected)
next
  show "timers (snd (hangupCall c sessionId)) = timers c" by simp
next
  show "timers (stateChange c r st) = timers c" by simp
next
  show "timers (inviteFailed c sessionId) = timers c"
    by (simp add: inviteFailed_def delete_session_def)
next
  assume "\<not> has_session c sessionId \<or> (\<exists>s. deref c r = Some s \<and> state s = Established)"
  then show "callTimeoutCallback c sessionId r = (Inr (), c)"
    by (rule callTimeoutCallback_noop)
next
  assume "has_session c sessionId \<and> deref c r = Some s'
        \<and> (state s' = Initial \<or> state s' = Establishing)"
  then show "callTimeoutCallback c sessionId r = (Inr (), send (Cancel r) c)"
    by (intro callTimeoutCallback_cancels [where s = s']) auto
next
  assume a: "snd (callTimeoutCallback c sessionId r) \<noteq> c"
  show "has_session c sessionId" using callTimeoutCallback_acts [OF a] by blast
  show "\<exists>s. deref c r = Some s \<and> state s \<noteq> Established"
    using callTimeoutCallback_acts [OF a] by blast
  show "callTimeoutCallback c sessionId r = (Inr (), send (Cancel r) c)"
    using callTimeoutCallback_acts [OF a] by blast
next
  assume "i < length (timers c) \<and> timers c ! i = CallTimeout sessionId r d"
  then show "fireTimer c i
          = callTimeoutCallback (c\<lparr>timers := take i (timers c) @ drop (Suc i) (timers c)\<rparr>)
              sessionId r"
    by (simp add: fireTimer_def)
next
  show "timers (snd (answerCall c sessionId options)) = timers c" by simp
next
  show "timers (onDisconnect c) = timers c" by (simp add: onDisconnect_def emit_def)
next
  show "timers (disconnect c ok) = timers c" by simp
qed

theorem call_timeout_guard_witness:
  "truthy (isConnected client_registered)
   \<and> timers (snd (makeCall client_registered ''q7w8e9r0t'' ''bob'' no_options))
       = [CallTimeout ''q7w8e9r0t'' 0 (Fin 5000)]
   \<and> has_session client_calling ''q7w8e9r0t''
   \<and> deref client_calling 0
       = Some \<lparr>cls = Inviter, state = Initial, listeners = [''q7w8e9r0t'']\<rparr>
   \<and> callTimeoutCallback client_calling ''q7w8e9r0t'' 0 = (Inr (), send (Cancel 0) client_calling)
   \<and> snd (callTimeoutCallback client_calling ''q7w8e9r0t'' 0) \<noteq> client_calling
   \<and> deref (stateChange client_calling 0 Established) 0
       = Some \<lparr>cls = Inviter, state = Established, listeners = [''q7w8e9r0t'']\<rparr>
   \<and> callTimeoutCallback (stateChange client_calling 0 Established) ''q7w8e9r0t'' 0
       = (Inr (), stateChange client_calling 0 Established)
   \<and> \<not> has_session (stateChange client_calling 0 Terminated) ''q7w8e9r0t''
   \<and> callTimeoutCallback (stateChange client_calling 0 Terminated) ''q7w8e9r0t'' 0
       = (Inr (), stateChange client_calling 0 Terminated)
   \<and> timers client_calling ! 0 = CallTimeout ''q7w8e9r0t'' 0 (Fin 5000)
   \<and> fireTimer client_calling 0
       = callTimeoutCallback (client_calling\<lparr>timers := []\<rparr>) ''q7w8e9r0t'' 0"
proof -
  let ?s0 = "\<lparr>cls = Inviter, state = Initial, listeners = [''q7w8e9r0t'']\<rparr>"
  let ?s1 = "\<lparr>cls = Inviter, state = Established, listeners = [''q7w8e9r0t'']\<rparr>"
  have t: "truthy (isConnected client_registered)"
    by (simp add: client_registered_eval isConnected_def)
  have v: "timers client_registered
      @ [CallTimeout ''q7w8e9r0t'' (length (heap client_registered)) (call_timeout client_registered)]
      = [CallTimeout ''q7w8e9r0t'' 0 (Fin 5000)]"
    by (simp add: client_registered_eval call_timeout_def env0_def)
  have m: "timers (snd (makeCall client_registered ''q7w8e9r0t'' ''bob'' no_options))
       = [CallTimeout ''q7w8e9r0t'' 0 (Fin 5000)]"
    using t v call_timeout_guard [of client_registered "''q7w8e9r0t''" "''bob''" no_options
        0 Initial ?s0 0 "Fin 5000"]
    by metis
  have hs: "has_session client_calling ''q7w8e9r0t''"
    by (simp add: client_calling_eval has_session_def get_session_def)
  have d: "deref client_calling 0 = Some ?s0"
    by (simp add: client_calling_eval deref_def)
  have si: "state ?s0 = Initial" by simp
  have l: "timers client_calling = [CallTimeout ''q7w8e9r0t'' 0 (Fin 5000)]"
    by (simp add: client_calling_eval)
  have li: "0 < length (timers client_calling)
      \<and> timers client_calling ! 0 = CallTimeout ''q7w8e9r0t'' 0 (Fin 5000)"
    by (simp add: l)
  have lt: "take 0 (timers client_calling) @ drop (Suc 0) (timers client_calling) = []"
    by (simp add: l)
  note g = call_timeout_guard [of client_calling "''q7w8e9r0t''" "''bob''" no_options
      0 Initial ?s0 0 "Fin 5000"]
  have a: "callTimeoutCallback client_calling ''q7w8e9r0t'' 0
      = (Inr (), send (Cancel 0) client_calling)"
    using hs d si g by blast
  have n: "snd (callTimeoutCallback client_calling ''q7w8e9r0t'' 0) \<noteq> client_calling"
  proof
    assume "snd (callTimeoutCallback client_calling ''q7w8e9r0t'' 0) = client_calling"
    then have "sent (send (Cancel 0) client_calling) = sent client_calling"
      by (simp add: a)
    then show False by (simp add: send_def)
  qed
  have de: "deref (stateChange client_calling 0 Established) 0 = Some ?s1"
    using deref_stateChange [OF d, of Established] by simp
  have se: "state ?s1 = Established" by simp
  have e: "callTimeoutCallback (stateChange client_calling 0 Established) ''q7w8e9r0t'' 0
       = (Inr (), stateChange client_calling 0 Established)"
    using de se call_timeout_guard [of "stateChange client_calling 0 Established"
        "''q7w8e9r0t''" "''bob''" no_options 0 Initial ?s0 0 "Fin 5000"]
    by blast
  have nh: "\<not> has_session (stateChange client_calling 0 Terminated) ''q7w8e9r0t''"
    using stateChange_terminated_removes [OF d, of "''q7w8e9r0t''"] by simp
  have x: "callTimeoutCallback (stateChange client_calling 0 Terminated) ''q7w8e9r0t'' 0
       = (Inr (), stateChange client_calling 0 Terminated)"
    using nh call_timeout_guard [of "stateChange client_calling 0 Terminated"
        "''q7w8e9r0t''" "''bob''" no_options 0 Initial ?s0 0 "Fin 5000"]
    by blast
  have f: "fireTimer client_calling 0
       = callTimeoutCallback (client_calling\<lparr>timers := []\<rparr>) ''q7w8e9r0t'' 0"
    using li lt g by metis
  show ?thesis using t m hs d a n de e nh x li f by blast
qed

section \<open>Auto-answer\<close>








section \<open>Session identifiers\<close>

lemma handleIncomingCall_sessions:
  "activeSessions (handleIncomingCall c r sessionId) = AList.update sessionId r (activeSessions c)"
  by (simp add: handleIncomingCall_def Let_def store_defs split: option.splits)

lemma onInvite_sessions:
  "activeSessions (onInvite c sessionId)
     = AList.update sessionId (length (heap c)) (activeSessions c)"
  by (simp add: onInvite_def handleIncomingCall_sessions alloc_def)

lemma makeCall_sessions:
  "activeSessions (snd (makeCall c sessionId target options))
     = (if truthy (isConnected c)
        then AList.update sessionId (length (heap c)) (activeSessions c)
        else activeSessions c)"
  by (simp add: makeCall_connected) (simp add: makeCall_def)

lemma stateChange_distinct:
  "distinct (map fst (activeSessions c)) \<Longrightarrow>
   distinct (map fst (activeSessions (stateChange c r st)))"
  by (simp add: stateChange_def fold_listener_distinct split: option.splits)

lemma fireTimer_sessions:
  "activeSessions (snd (fireTimer c i)) = activeSessions c"
  by (simp add: fireTimer_def Let_def callTimeoutCallback_def autoAnswerCallback_def send_def
      split: timer.splits option.splits)

lemma reachable_distinct:
  "reachable c \<Longrightarrow> distinct (map fst (activeSessions c))"
proof (induction rule: reachable.induct)
  case (r_new config penv)
  show ?case by (simp add: constructor_def)
next
  case (r_connect c)
  then show ?case by (simp add: connect_def send_def)
next
  case (r_register c ok)
  then show ?case by (simp add: register_def send_def emit_def split: option.splits)
next
  case (r_onConnect c)
  then show ?case by (simp add: onConnect_def)
next
  case (r_onDisconnect c)
  then show ?case by (simp add: onDisconnect_def emit_def)
next
  case (r_onInvite c sessionId)
  then show ?case by (simp add: onInvite_sessions distinct_update)
next
  case (r_makeCall c sessionId target options)
  then show ?case by (simp add: makeCall_sessions distinct_update)
next
  case (r_answerCall c sessionId options)
  then show ?case by simp
next
  case (r_hangupCall c sessionId)
  then show ?case by simp
next
  case (r_stateChange c r newState)
  then show ?case by (simp add: stateChange_distinct)
next
  case (r_inviteFailed c sessionId)
  then show ?case by (simp add: inviteFailed_def delete_session_def distinct_delete)
next
  case (r_fireTimer c i)
  then show ?case by (simp add: fireTimer_sessions)
next
  case (r_disconnect c ok)
  then show ?case by simp
qed

lemma reachable_client_ringing: "reachable client_ringing"
  unfolding client_ringing_def client_registered_def
proof (rule r_onInvite)
  have c: "reachable (connect (constructor cfg0 env0))"
    by (rule r_connect) (rule r_new)
  have u: "userAgent (register (connect (constructor cfg0 env0)) True) \<noteq> None"
    by (simp add: register_def connect_def send_def emit_def constructor_def)
  show "reachable (onConnect (register (connect (constructor cfg0 env0)) True))"
    using c u by (intro r_onConnect r_register)
  show "userAgent (onConnect (register (connect (constructor cfg0 env0)) True)) \<noteq> None"
    using u by (simp add: onConnect_def)
qed

text \<open>
  Claim C6, as stated, fails: nothing compares a generated identifier with the registry.
  When \<^verbatim>\<open>makeCall\<close> draws the identifier under which the ringing inbound session of
  \<open>client_ringing\<close> is registered, it returns that identifier again and the registry
  entry is overwritten, while the inbound session is still alive, in state \<open>Initial\<close>,
  with its listener reporting under the same identifier.
\<close>

theorem generateSessionId_reuse_counterexample:
  "get_session client_ringing ''k3x9q2m1a'' = Some 0
   \<and> deref client_ringing 0
       = Some \<lparr>cls = Invitation, state = Initial, listeners = [''k3x9q2m1a'']\<rparr>
   \<and> fst (makeCall client_ringing ''k3x9q2m1a'' ''bob'' no_options) = Inr ''k3x9q2m1a''
   \<and> activeSessions (snd (makeCall client_ringing ''k3x9q2m1a'' ''bob'' no_options))
       = [(''k3x9q2m1a'', 1)]
   \<and> heap (snd (makeCall client_ringing ''k3x9q2m1a'' ''bob'' no_options))
       = [\<lparr>cls = Invitation, state = Initial, listeners = [''k3x9q2m1a'']\<rparr>,
          \<lparr>cls = Inviter, state = Initial, listeners = [''k3x9q2m1a'']\<rparr>]"
proof -
  have t: "truthy (isConnected client_ringing)"
    by (simp add: client_ringing_eval isConnected_def)
  show ?thesis
    unfolding makeCall_connected [OF t]
    by (simp add: client_ringing_eval get_session_def deref_def)
qed

text \<open>
  Claim C6, amended. Session identifiers are assigned at creation time, and a session
  is registered under the identifier generated for it. In every reachable state the
  identifiers of the registry's entries are pairwise different. A generated identifier
  that is not in the registry adds one entry and leaves the others as they are. (An
  identifier that is in the registry is not refused.)
\<close>

theorem registry_identifiers_distinct:
  assumes "reachable c"
  shows "distinct (map fst (activeSessions c))
   \<and> (truthy (isConnected c) \<longrightarrow>
        fst (makeCall c sessionId target options) = Inr sessionId
        \<and> get_session (snd (makeCall c sessionId target options)) sessionId
            = Some (length (heap c)))
   \<and> get_session (onInvite c sessionId) sessionId = Some (length (heap c))
   \<and> (sessionId \<notin> fst ` set (activeSessions c) \<longrightarrow>
        activeSessions (onInvite c sessionId) = activeSessions c @ [(sessionId, length (heap c))]
        \<and> (truthy (isConnected c) \<longrightarrow>
             activeSessions (snd (makeCall c sessionId target options))
               = activeSessions c @ [(sessionId, length (heap c))]))"
proof (intro conjI impI)
  show "distinct (map fst (activeSessions c))"
    using assms by (rule reachable_distinct)
next
  assume t: "truthy (isConnected c)"
  show "fst (makeCall c sessionId target options) = Inr sessionId"
    by (simp add: makeCall_connected [OF t])
  show "get_session (snd (makeCall c sessionId target options)) sessionId
            = Some (length (heap c))"
    by (simp add: makeCall_connected [OF t] get_session_def update_conv')
next
  show "get_session (onInvite c sessionId) sessionId = Some (length (heap c))"
    by (simp add: get_session_def onInvite_sessions update_conv')
next
  assume "sessionId \<notin> fst ` set (activeSessions c)"
  then show "activeSessions (onInvite c sessionId)
      = activeSessions c @ [(sessionId, length (heap c))]"
    by (simp add: onInvite_sessions update_fresh_key)
next
  assume "sessionId \<notin> fst ` set (activeSessions c)" and "truthy (isConnected c)"
  then show "activeSessions (snd (makeCall c sessionId target options))
               = activeSessions c @ [(sessionId, length (heap c))]"
    by (simp add: makeCall_sessions update_fresh_key)
qed

theorem registry_identifiers_distinct_witness:
  "reachable client_ringing
   \<and> distinct (map fst (activeSessions client_ringing))
   \<and> truthy (isConnected client_ringing)
   \<and> ''q7w8e9r0t'' \<notin> fst ` set (activeSessions client_ringing)
   \<and> activeSessions (snd (makeCall client_ringing ''q7w8e9r0t'' ''bob'' no_options))
       = [(''k3x9q2m1a'', 0), (''q7w8e9r0t'', 1)]"
proof -
  have t: "truthy (isConnected client_ringing)"
    by (simp add: client_ringing_eval isConnected_def)
  have k: "''q7w8e9r0t'' \<notin> fst ` set (activeSessions client_ringing)"
    by (simp add: client_ringing_eval)
  have v: "activeSessions client_ringing @ [(''q7w8e9r0t'', length (heap client_ringing))]
      = [(''k3x9q2m1a'', 0), (''q7w8e9r0t'', 1)]"
    by (simp add: client_ringing_eval)
  show ?thesis
    using t k v reachable_client_ringing
      registry_identifiers_distinct [OF reachable_client_ringing,
        of "''q7w8e9r0t''" "''bob''" no_options]
    by simp
qed

end
